theory Spec2Isabelle
  imports Main
begin

section \<open>Saving data to disk: in-place update and atomic renaming (cmd/main.go)\<close>

text \<open>
  The program has two functions, \<open>SaveData1\<close> (open, truncate, write, sync) and
  \<open>SaveData2\<close> (write a temporary file, sync it, rename it). Both talk to the operating
  system only through \<open>os.MkdirAll\<close>, \<open>os.OpenFile\<close>, \<open>File.Write\<close>, \<open>File.Sync\<close>,
  \<open>File.Close\<close>, \<open>os.Remove\<close> and \<open>os.Rename\<close>. The embedding threads an explicit
  file-system state through these calls. Every call can fail: for a reason the state
  shows (the name exists, the destination is a directory) or for one it does not show
  (no space, no permission, an I/O error), which the environment of the call supplies.
\<close>

subsection \<open>Error values\<close>

datatype errno =
  EEXIST | ENOENT | EISDIR | ENOTDIR | ENOTEMPTY | ELOOP | EIO | ENOSPC | EACCES

text \<open>
  A Go \<open>error\<close> is modelled as \<open>error option\<close>, where \<open>None\<close> is \<open>nil\<close>. The first four
  constructors are the package's sentinel values; \<open>PathError op name e\<close> and
  \<open>LinkError op old new e\<close> are the errors the \<open>os\<close> package itself returns, and
  \<open>ErrShortWrite\<close> is \<open>io.ErrShortWrite\<close>. An \<open>os\<close> error is never equal to a sentinel.
\<close>

datatype error =
    WriteErr
  | OpenErr
  | SyncErr
  | FolderErr
  | PathError string string errno
  | LinkError string string string errno
  | ErrShortWrite

subsection \<open>The file system\<close>

text \<open>
  A name is bound to a regular file with its bytes, to a directory, or to a symbolic
  link with the name it points to. Names are compared as strings: two spellings of one
  path are two names, and the target of a link is taken as a name as it stands. A Go
  \<open>[]byte\<close> is a \<open>string\<close> here, a list of 8-bit characters.
\<close>

datatype node = File string | Dir | Symlink string

type_synonym files = "string \<Rightarrow> node option"

datatype open_flag = O_TRUNC | O_EXCL

text \<open>
  Every call the program makes to package \<open>os\<close> is recorded, in order, with its
  arguments.
\<close>

datatype event =
    EvMkdirAll string
  | EvOpenFile string open_flag
  | EvWrite string nat
  | EvSync string
  | EvClose string
  | EvRemove string
  | EvRename string string

record state =
  files :: files
  trace :: "event list"

text \<open>
  What one call of \<open>SaveData1\<close> or \<open>SaveData2\<close> meets: the value \<open>rand.Int()\<close> returns
  (never negative), and for each operation the fault, if any, that the state does not
  explain. Looking a name up and making one directory can fail name by name.
  \<open>write_limit = Some k\<close> means the device takes at most \<open>k\<close> bytes.
\<close>

record env =
  rand_Int :: nat
  stat_fault :: "string \<Rightarrow> errno option"
  mkdir_fault :: "string \<Rightarrow> errno option"
  open_fault :: "errno option"
  write_limit :: "nat option"
  write_fault :: "errno option"
  sync_fault :: "errno option"
  remove_fault :: "errno option"
  rename_fault :: "errno option"

text \<open>
  An open file: the name it was opened under, which the errors of \<open>File.Write\<close> and
  \<open>File.Sync\<close> carry, and the name of the regular file the bytes go to. Neither function
  renames or removes a file between opening it and the last write or sync on it.
\<close>

record handle =
  h_name :: string
  h_file :: string

definition emit :: "event \<Rightarrow> state \<Rightarrow> state" where
  "emit e s = s\<lparr>trace := trace s @ [e]\<rparr>"

subsection \<open>Looking names up\<close>

text \<open>The system follows at most 40 symbolic links in one lookup.\<close>

definition maxlinks :: nat where
  "maxlinks = 40"

fun resolve :: "files \<Rightarrow> nat \<Rightarrow> string \<Rightarrow> errno + string" where
  "resolve fs k n =
     (case fs n of
        Some (Symlink t) \<Rightarrow> (if k = 0 then Inl ELOOP else resolve fs (k - 1) t)
      | Some (File c) \<Rightarrow> Inr n
      | Some Dir \<Rightarrow> Inr n
      | None \<Rightarrow> Inr n)"

text \<open>\<open>os.Lstat\<close> looks at the name itself; \<open>os.Stat\<close> follows symbolic links.\<close>

definition Lstat :: "env \<Rightarrow> files \<Rightarrow> string \<Rightarrow> errno + node" where
  "Lstat env fs n =
     (case stat_fault env n of
        Some e \<Rightarrow> Inl e
      | None \<Rightarrow>
          (case n of
             [] \<Rightarrow> Inl ENOENT
           | _ # _ \<Rightarrow> (case fs n of None \<Rightarrow> Inl ENOENT | Some nd \<Rightarrow> Inr nd)))"

definition Stat :: "env \<Rightarrow> files \<Rightarrow> string \<Rightarrow> errno + node" where
  "Stat env fs n =
     (case stat_fault env n of
        Some e \<Rightarrow> Inl e
      | None \<Rightarrow>
          (case n of
             [] \<Rightarrow> Inl ENOENT
           | _ # _ \<Rightarrow>
               (case resolve fs maxlinks n of
                  Inl e \<Rightarrow> Inl e
                | Inr r \<Rightarrow> (case fs r of None \<Rightarrow> Inl ENOENT | Some nd \<Rightarrow> Inr nd))))"

subsection \<open>The operations of package os\<close>

text \<open>\<open>os.Mkdir\<close> makes one directory, under a name that is not bound yet.\<close>

definition Mkdir :: "env \<Rightarrow> files \<Rightarrow> string \<Rightarrow> error option \<times> files" where
  "Mkdir env fs name =
     (case mkdir_fault env name of
        Some e \<Rightarrow> (Some (PathError ''mkdir'' name e), fs)
      | None \<Rightarrow>
          (case name of
             [] \<Rightarrow> (Some (PathError ''mkdir'' name ENOENT), fs)
           | _ # _ \<Rightarrow>
               (case fs name of
                  Some nd \<Rightarrow> (Some (PathError ''mkdir'' name EEXIST), fs)
                | None \<Rightarrow> (None, fs(name \<mapsto> Dir)))))"

text \<open>
  The parent \<open>os.MkdirAll\<close> extracts from a path: the trailing separators are skipped,
  then the last component; what is left, with its separator, is the parent.
\<close>

definition parent_of :: "string \<Rightarrow> string" where
  "parent_of path =
     rev (dropWhile (\<lambda>c. c \<noteq> CHR ''/'') (dropWhile (\<lambda>c. c = CHR ''/'') (rev path)))"

text \<open>
  The last step of \<open>os.MkdirAll\<close>: make the directory itself; when that fails, look
  again, since the directory may be there all the same.
\<close>

definition mkdir_leaf :: "env \<Rightarrow> files \<Rightarrow> string \<Rightarrow> error option \<times> files" where
  "mkdir_leaf env fs path =
     (case Mkdir env fs path of
        (None, fs') \<Rightarrow> (None, fs')
      | (Some e, fs') \<Rightarrow>
          (case Lstat env fs' path of
             Inr Dir \<Rightarrow> (None, fs')
           | Inr (File c) \<Rightarrow> (Some e, fs')
           | Inr (Symlink t) \<Rightarrow> (Some e, fs')
           | Inl e' \<Rightarrow> (Some e, fs')))"

text \<open>
  \<open>os.MkdirAll\<close>: when the path is a directory already there is nothing to do, and
  when it is something else the call fails with \<open>ENOTDIR\<close>. Otherwise the parent is
  made first, by the same procedure, and then the directory itself. The parents that
  were made stay when a later step fails.
\<close>

function mkdir_all :: "env \<Rightarrow> files \<Rightarrow> string \<Rightarrow> error option \<times> files" where
  "mkdir_all env fs path =
     (case Stat env fs path of
        Inr Dir \<Rightarrow> (None, fs)
      | Inr (File c) \<Rightarrow> (Some (PathError ''mkdir'' path ENOTDIR), fs)
      | Inr (Symlink t) \<Rightarrow> (Some (PathError ''mkdir'' path ENOTDIR), fs)
      | Inl e \<Rightarrow>
          (case (if parent_of path = [] then (None, fs)
                 else mkdir_all env fs (parent_of path)) of
             (Some e1, fs1) \<Rightarrow> (Some e1, fs1)
           | (None, fs1) \<Rightarrow> mkdir_leaf env fs1 path))"
  by pat_completeness auto
termination
proof (relation "measure (\<lambda>(env, fs, path). length path)")
  show "wf (measure (\<lambda>(env, fs, path). length path))"
    by simp
next
  fix env :: env and fs :: files and path :: string and e :: errno
  assume "parent_of path \<noteq> []"
  then have "rev path \<noteq> []"
    by (auto simp: parent_of_def)
  then obtain c cs where r: "rev path = c # cs"
    by (cases "rev path") auto
  have "length (dropWhile (\<lambda>c. c \<noteq> CHR ''/'') (dropWhile (\<lambda>c. c = CHR ''/'') (c # cs)))
          \<le> length cs"
  proof (cases "c = CHR ''/''")
    case True
    have "length (dropWhile (\<lambda>c. c \<noteq> CHR ''/'') (dropWhile (\<lambda>c. c = CHR ''/'') cs))
            \<le> length (dropWhile (\<lambda>c. c = CHR ''/'') cs)"
      by (rule length_dropWhile_le)
    also have "\<dots> \<le> length cs"
      by (rule length_dropWhile_le)
    finally show ?thesis
      using True by simp
  next
    case False
    then show ?thesis
      by (simp add: length_dropWhile_le)
  qed
  then have "length (parent_of path) < length path"
    using r length_rev [of path] by (simp add: parent_of_def)
  then show "((env, fs, parent_of path), (env, fs, path))
               \<in> measure (\<lambda>(env, fs, path). length path)"
    by simp
qed

definition MkdirAll :: "env \<Rightarrow> state \<Rightarrow> string \<Rightarrow> error option \<times> state" where
  "MkdirAll env s path =
     (case mkdir_all env (files s) path of
        (err, fs') \<Rightarrow> (err, emit (EvMkdirAll path) (s\<lparr>files := fs'\<rparr>)))"

text \<open>
  \<open>os.OpenFile\<close> with \<open>O_WRONLY|O_CREATE\<close> and one of \<open>O_TRUNC\<close>, \<open>O_EXCL\<close>. With
  \<open>O_EXCL\<close> a name that is bound, to a symbolic link too, fails with \<open>EEXIST\<close> and is
  left alone. With \<open>O_TRUNC\<close> symbolic links are followed; a regular file is emptied, a
  missing one is made, and a directory cannot be opened for writing.
\<close>

definition OpenFile :: "env \<Rightarrow> state \<Rightarrow> string \<Rightarrow> open_flag \<Rightarrow> (error + handle) \<times> state" where
  "OpenFile env s name flag =
     (let s' = emit (EvOpenFile name flag) s in
      case open_fault env of
        Some e \<Rightarrow> (Inl (PathError ''open'' name e), s')
      | None \<Rightarrow>
          (case name of
             [] \<Rightarrow> (Inl (PathError ''open'' name ENOENT), s')
           | _ # _ \<Rightarrow>
               (case flag of
                  O_EXCL \<Rightarrow>
                    (case files s name of
                       Some nd \<Rightarrow> (Inl (PathError ''open'' name EEXIST), s')
                     | None \<Rightarrow>
                         (Inr \<lparr>h_name = name, h_file = name\<rparr>,
                          s'\<lparr>files := (files s)(name \<mapsto> File [])\<rparr>))
                | O_TRUNC \<Rightarrow>
                    (case resolve (files s) maxlinks name of
                       Inl e \<Rightarrow> (Inl (PathError ''open'' name e), s')
                     | Inr r \<Rightarrow>
                         (case files s r of
                            Some Dir \<Rightarrow> (Inl (PathError ''open'' name EISDIR), s')
                          | Some (Symlink t) \<Rightarrow> (Inl (PathError ''open'' name ELOOP), s')
                          | Some (File c) \<Rightarrow>
                              (Inr \<lparr>h_name = name, h_file = r\<rparr>,
                               s'\<lparr>files := (files s)(r \<mapsto> File [])\<rparr>)
                          | None \<Rightarrow>
                              (Inr \<lparr>h_name = name, h_file = r\<rparr>,
                               s'\<lparr>files := (files s)(r \<mapsto> File [])\<rparr>))))))"

text \<open>
  \<open>File.Write\<close> on a handle at offset 0: the first \<open>n\<close> bytes of the buffer replace the
  first \<open>n\<close> bytes of the file, where \<open>n\<close> is the whole length unless the device takes
  fewer. As in package \<open>os\<close>, the error is \<open>io.ErrShortWrite\<close> when \<open>n\<close> is not the
  length of the buffer, and the error of the system call when there is one.
\<close>

definition written :: "env \<Rightarrow> string \<Rightarrow> nat" where
  "written env b = (case write_limit env of None \<Rightarrow> length b | Some k \<Rightarrow> min k (length b))"

definition Write :: "env \<Rightarrow> state \<Rightarrow> handle \<Rightarrow> string \<Rightarrow> nat \<times> error option \<times> state" where
  "Write env s fp b =
     (let n = written env b;
          fs' = (case files s (h_file fp) of
                   Some (File c) \<Rightarrow> (files s)(h_file fp \<mapsto> File (take n b @ drop n c))
                 | Some Dir \<Rightarrow> files s
                 | Some (Symlink t) \<Rightarrow> files s
                 | None \<Rightarrow> files s);
          s' = emit (EvWrite (h_name fp) n) (s\<lparr>files := fs'\<rparr>);
          err = (case write_fault env of
                   Some e \<Rightarrow> Some (PathError ''write'' (h_name fp) e)
                 | None \<Rightarrow> if n = length b then None else Some ErrShortWrite)
      in (n, err, s'))"

text \<open>\<open>File.Sync\<close> changes nothing a later call can see; it only succeeds or fails.\<close>

definition Sync :: "env \<Rightarrow> state \<Rightarrow> handle \<Rightarrow> error option \<times> state" where
  "Sync env s fp =
     (let s' = emit (EvSync (h_name fp)) s in
      case sync_fault env of
        Some e \<Rightarrow> (Some (PathError ''sync'' (h_name fp) e), s')
      | None \<Rightarrow> (None, s'))"

definition Close :: "state \<Rightarrow> handle \<Rightarrow> error option \<times> state" where
  "Close s fp = (None, emit (EvClose (h_name fp)) s)"

text \<open>
  \<open>os.Remove\<close>: unlinks a regular file or a symbolic link. Whether a directory is empty
  is not part of the state, so removing a directory is reported as \<open>ENOTEMPTY\<close>.
\<close>

definition Remove :: "env \<Rightarrow> state \<Rightarrow> string \<Rightarrow> error option \<times> state" where
  "Remove env s name =
     (let s' = emit (EvRemove name) s in
      case remove_fault env of
        Some e \<Rightarrow> (Some (PathError ''remove'' name e), s')
      | None \<Rightarrow>
          (case files s name of
             None \<Rightarrow> (Some (PathError ''remove'' name ENOENT), s')
           | Some Dir \<Rightarrow> (Some (PathError ''remove'' name ENOTEMPTY), s')
           | Some (File c) \<Rightarrow> (None, s'\<lparr>files := (files s)(name := None)\<rparr>)
           | Some (Symlink t) \<Rightarrow> (None, s'\<lparr>files := (files s)(name := None)\<rparr>)))"

text \<open>
  The system call behind \<open>os.Rename\<close>: the old entry moves to the new name and replaces
  a regular file or a symbolic link that is there; a directory is not replaced by a
  file, nor a file by a directory. Neither name is followed when it is a link.
\<close>

definition rename_entry :: "files \<Rightarrow> string \<Rightarrow> string \<Rightarrow> errno + files" where
  "rename_entry fs oldname newname =
     (case fs oldname of
        None \<Rightarrow> Inl ENOENT
      | Some nd \<Rightarrow>
          (if oldname = newname then Inr fs
           else
             (case fs newname of
                None \<Rightarrow> Inr (fs(oldname := None, newname \<mapsto> nd))
              | Some Dir \<Rightarrow> (case nd of Dir \<Rightarrow> Inl ENOTEMPTY | _ \<Rightarrow> Inl EISDIR)
              | Some (File c) \<Rightarrow>
                  (case nd of
                     Dir \<Rightarrow> Inl ENOTDIR
                   | _ \<Rightarrow> Inr (fs(oldname := None, newname \<mapsto> nd)))
              | Some (Symlink t) \<Rightarrow>
                  (case nd of
                     Dir \<Rightarrow> Inl ENOTDIR
                   | _ \<Rightarrow> Inr (fs(oldname := None, newname \<mapsto> nd))))))"

text \<open>
  \<open>os.Rename\<close>: package \<open>os\<close> first looks at the new name with \<open>Lstat\<close>. When that is
  a directory it refuses: with the error of looking at the old name when that fails,
  with \<open>EEXIST\<close> otherwise. In every other case it makes the system call.
\<close>

definition Rename :: "env \<Rightarrow> state \<Rightarrow> string \<Rightarrow> string \<Rightarrow> error option \<times> state" where
  "Rename env s oldname newname =
     (let s' = emit (EvRename oldname newname) s;
          refused = (case Lstat env (files s) newname of
                       Inr Dir \<Rightarrow>
                         (case Lstat env (files s) oldname of
                            Inl e \<Rightarrow> Some e
                          | Inr nd \<Rightarrow> Some EEXIST)
                     | Inr (File c) \<Rightarrow> None
                     | Inr (Symlink t) \<Rightarrow> None
                     | Inl e \<Rightarrow> None)
      in case refused of
           Some e \<Rightarrow> (Some (LinkError ''rename'' oldname newname e), s')
         | None \<Rightarrow>
             (case rename_fault env of
                Some e \<Rightarrow> (Some (LinkError ''rename'' oldname newname e), s')
              | None \<Rightarrow>
                  (case rename_entry (files s) oldname newname of
                     Inl e \<Rightarrow> (Some (LinkError ''rename'' oldname newname e), s')
                   | Inr fs' \<Rightarrow> (None, s'\<lparr>files := fs'\<rparr>))))"

subsection \<open>strconv.Itoa\<close>

definition digit :: "nat \<Rightarrow> char" where
  "digit d = ''0123456789'' ! d"

fun utoa :: "nat \<Rightarrow> string" where
  "utoa n = (if n < 10 then [digit n] else utoa (n div 10) @ [digit (n mod 10)])"

definition Itoa :: "int \<Rightarrow> string" where
  "Itoa i = (if i < 0 then CHR ''-'' # utoa (nat (- i)) else utoa (nat i))"

subsection \<open>SaveData1: updating a file in place\<close>

definition SaveData1 :: "env \<Rightarrow> state \<Rightarrow> string \<Rightarrow> string \<Rightarrow> string \<Rightarrow> error option \<times> state" where
  "SaveData1 env s path file data =
     (case MkdirAll env s path of
        (Some e, s1) \<Rightarrow> (Some FolderErr, s1)
      | (None, s1) \<Rightarrow>
          (case OpenFile env s1 (path @ file) O_TRUNC of
             (Inl e, s2) \<Rightarrow> (Some OpenErr, s2)
           | (Inr fp, s2) \<Rightarrow>
               \<comment> \<open>\<open>defer fp.Close()\<close> runs on each return below\<close>
               (case Write env s2 fp data of
                  (n, Some e, s3) \<Rightarrow> (Some WriteErr, snd (Close s3 fp))
                | (n, None, s3) \<Rightarrow>
                    (case Sync env s3 fp of
                       (r, s4) \<Rightarrow> (r, snd (Close s4 fp))))))"

subsection \<open>SaveData2: replacing a file by renaming\<close>

text \<open>\<open>fmt.Sprintf("%s.tmp.%s", path+file, stamp)\<close> with \<open>stamp = strconv.Itoa(rand.Int())\<close>.\<close>

definition tmp_name :: "env \<Rightarrow> string \<Rightarrow> string \<Rightarrow> string" where
  "tmp_name env path file = (path @ file) @ ''.tmp.'' @ Itoa (int (rand_Int env))"

text \<open>
  The deferred function: it closes the file and, when the local variable \<open>err\<close> is not
  \<open>nil\<close> at that moment, removes the temporary file. The result of \<open>os.Remove\<close> is
  dropped.
\<close>

definition deferred :: "env \<Rightarrow> handle \<Rightarrow> string \<Rightarrow> error option \<Rightarrow> state \<Rightarrow> state" where
  "deferred env fp tmp err s =
     (let s1 = snd (Close s fp) in
      case err of
        None \<Rightarrow> s1
      | Some e \<Rightarrow> snd (Remove env s1 tmp))"

text \<open>
  The last statement is \<open>return os.Rename(tmp, path)\<close>: the destination is \<open>path\<close>, and
  the result goes to the caller without being assigned to \<open>err\<close>, so the deferred
  function still sees the \<open>err\<close> that \<open>fp.Sync()\<close> left.
\<close>

definition SaveData2 :: "env \<Rightarrow> state \<Rightarrow> string \<Rightarrow> string \<Rightarrow> string \<Rightarrow> error option \<times> state" where
  "SaveData2 env s path file data =
     (let tmp = tmp_name env path file in
      case MkdirAll env s path of
        (Some e, s1) \<Rightarrow> (Some FolderErr, s1)
      | (None, s1) \<Rightarrow>
          (case OpenFile env s1 tmp O_EXCL of
             (Inl e, s2) \<Rightarrow> (Some OpenErr, s2)
           | (Inr fp, s2) \<Rightarrow>
               (case Write env s2 fp data of
                  (n, Some e, s3) \<Rightarrow> (Some WriteErr, deferred env fp tmp (Some e) s3)
                | (n, None, s3) \<Rightarrow>
                    (case Sync env s3 fp of
                       (Some e, s4) \<Rightarrow> (Some SyncErr, deferred env fp tmp (Some e) s4)
                     | (None, s4) \<Rightarrow>
                         (case Rename env s4 tmp path of
                            (r, s5) \<Rightarrow> (r, deferred env fp tmp None s5))))))"

subsection \<open>The states a call of SaveData2 goes through\<close>

text \<open>
  The state before the call and the state after each call to package \<open>os\<close>, in order;
  the same run as \<open>SaveData2\<close>, with every state kept.
\<close>

definition deferred_states :: "env \<Rightarrow> handle \<Rightarrow> string \<Rightarrow> error option \<Rightarrow> state \<Rightarrow> state list" where
  "deferred_states env fp tmp err s =
     (let s1 = snd (Close s fp) in
      case err of
        None \<Rightarrow> [s1]
      | Some e \<Rightarrow> [s1, snd (Remove env s1 tmp)])"

definition SaveData2_states :: "env \<Rightarrow> state \<Rightarrow> string \<Rightarrow> string \<Rightarrow> string \<Rightarrow> state list" where
  "SaveData2_states env s path file data =
     (let tmp = tmp_name env path file in
      case MkdirAll env s path of
        (Some e, s1) \<Rightarrow> [s, s1]
      | (None, s1) \<Rightarrow>
          (case OpenFile env s1 tmp O_EXCL of
             (Inl e, s2) \<Rightarrow> [s, s1, s2]
           | (Inr fp, s2) \<Rightarrow>
               (case Write env s2 fp data of
                  (n, Some e, s3) \<Rightarrow> [s, s1, s2, s3] @ deferred_states env fp tmp (Some e) s3
                | (n, None, s3) \<Rightarrow>
                    (case Sync env s3 fp of
                       (Some e, s4) \<Rightarrow>
                         [s, s1, s2, s3, s4] @ deferred_states env fp tmp (Some e) s4
                     | (None, s4) \<Rightarrow>
                         (case Rename env s4 tmp path of
                            (r, s5) \<Rightarrow>
                              [s, s1, s2, s3, s4, s5] @ deferred_states env fp tmp None s5)))))"

subsection \<open>Vocabulary of the properties\<close>

text \<open>The directory step of a call succeeded.\<close>

definition dir_ensured :: "env \<Rightarrow> state \<Rightarrow> string \<Rightarrow> bool" where
  "dir_ensured env s path = (fst (MkdirAll env s path) = None)"

text \<open>The files as the directory step of a call leaves them.\<close>

definition after_mkdir :: "env \<Rightarrow> state \<Rightarrow> string \<Rightarrow> files" where
  "after_mkdir env s path = snd (mkdir_all env (files s) path)"

text \<open>\<open>SaveData1\<close> got as far as a handle on \<open>path+file\<close>.\<close>

definition target_opened :: "env \<Rightarrow> state \<Rightarrow> string \<Rightarrow> string \<Rightarrow> bool" where
  "target_opened env s path file =
     (case MkdirAll env s path of
        (Some e, s1) \<Rightarrow> False
      | (None, s1) \<Rightarrow>
          (case OpenFile env s1 (path @ file) O_TRUNC of
             (Inl e, s2) \<Rightarrow> False
           | (Inr fp, s2) \<Rightarrow> True))"

text \<open>\<open>SaveData2\<close> got as far as a handle on the temporary file.\<close>

definition temp_created :: "env \<Rightarrow> state \<Rightarrow> string \<Rightarrow> string \<Rightarrow> bool" where
  "temp_created env s path file =
     (case MkdirAll env s path of
        (Some e, s1) \<Rightarrow> False
      | (None, s1) \<Rightarrow>
          (case OpenFile env s1 (tmp_name env path file) O_EXCL of
             (Inl e, s2) \<Rightarrow> False
           | (Inr fp, s2) \<Rightarrow> True))"

text \<open>The write of the payload reports an error, or takes fewer bytes than the payload has.\<close>

definition write_errs :: "env \<Rightarrow> bool" where
  "write_errs env = (case write_fault env of Some e \<Rightarrow> True | None \<Rightarrow> False)"

definition short_write :: "env \<Rightarrow> string \<Rightarrow> bool" where
  "short_write env data = (written env data < length data)"

definition sync_errs :: "env \<Rightarrow> bool" where
  "sync_errs env = (case sync_fault env of Some e \<Rightarrow> True | None \<Rightarrow> False)"


text \<open>
  From one file system to the next, nothing has changed but for new directories: every
  name is bound as it was, or was not bound and is a directory now.
\<close>

definition only_dirs_added :: "files \<Rightarrow> files \<Rightarrow> bool" where
  "only_dirs_added fs fs' = (\<forall>n. fs' n = fs n \<or> (fs n = None \<and> fs' n = Some Dir))"



subsection \<open>Concrete environments and disks\<close>

text \<open>An environment in which nothing fails by itself, with \<open>rand.Int()\<close> returning \<open>n\<close>.\<close>

definition calm :: "nat \<Rightarrow> env" where
  "calm n = \<lparr>rand_Int = n, stat_fault = (\<lambda>p. None), mkdir_fault = (\<lambda>p. None),
     open_fault = None, write_limit = None, write_fault = None, sync_fault = None,
     remove_fault = None, rename_fault = None\<rparr>"

text \<open>The disk after the first half of \<open>main\<close>: the directory and the greeting.\<close>

definition disk_hello :: state where
  "disk_hello =
     \<lparr>files = (\<lambda>n. None)(''./data/'' \<mapsto> Dir, ''./data/hello.txt'' \<mapsto> File ''Hello, World!''),
      trace = []\<rparr>"

definition disk_empty :: state where
  "disk_empty = \<lparr>files = (\<lambda>n. None), trace = []\<rparr>"

text \<open>
  A working directory that holds a regular file \<open>pre\<close> and a file that has the name
  \<open>SaveData2\<close> will generate for \<open>path = pre\<close>, \<open>file = fix\<close> and the random number 7.
\<close>

definition disk_pre :: state where
  "disk_pre =
     \<lparr>files = (\<lambda>n. None)(''pre'' \<mapsto> File ''p'', ''prefix.tmp.7'' \<mapsto> File ''old''),
      trace = []\<rparr>"

text \<open>A data directory in which a file already has the temporary name for the number 42.\<close>

definition disk_stale :: state where
  "disk_stale =
     \<lparr>files = (\<lambda>n. None)(''./data/'' \<mapsto> Dir, ''./data/hello.txt.tmp.42'' \<mapsto> File ''old''),
      trace = []\<rparr>"

text \<open>A working directory in which \<open>data\<close> is a symbolic link to the directory \<open>store/\<close>.\<close>

definition disk_link :: state where
  "disk_link =
     \<lparr>files = (\<lambda>n. None)(''store/'' \<mapsto> Dir, ''data'' \<mapsto> Symlink ''store/''),
      trace = []\<rparr>"

text \<open>
  A data directory \<open>/data/\<close> in which \<open>hello.txt\<close> is a symbolic link to the name the
  temporary file will get for the random number 42; nothing has that name yet.
\<close>

definition disk_alias :: state where
  "disk_alias =
     \<lparr>files = (\<lambda>n. None)(''/data/'' \<mapsto> Dir,
         ''/data/hello.txt'' \<mapsto> Symlink ''/data/hello.txt.tmp.42''),
      trace = []\<rparr>"

text \<open>The working directory of \<open>main\<close> before its first run, and a disk that is full
  once \<open>./cmd/\<close> has been made.\<close>

definition disk_cwd :: state where
  "disk_cwd = \<lparr>files = (\<lambda>n. None)(''./'' \<mapsto> Dir), trace = []\<rparr>"

definition full_after_cmd :: env where
  "full_after_cmd = (calm 42)\<lparr>mkdir_fault := (\<lambda>p. None)(''./cmd/files/'' \<mapsto> ENOSPC)\<rparr>"

section \<open>Properties\<close>

subsection \<open>Facts about the operations\<close>

declare mkdir_all.simps [simp del]
declare resolve.simps [simp del]

lemmas os_defs =
  MkdirAll_def OpenFile_def Write_def Sync_def Close_def Remove_def Rename_def
  rename_entry_def Lstat_def Stat_def Mkdir_def mkdir_leaf_def deferred_def emit_def Let_def

lemmas disk_defs =
  calm_def disk_hello_def disk_empty_def disk_pre_def disk_stale_def disk_link_def
  disk_alias_def disk_cwd_def full_after_cmd_def
  tmp_name_def Itoa_def digit_def written_def
  mkdir_all.simps resolve.simps parent_of_def maxlinks_def

lemma tmp_neq_path: "tmp_name env path file \<noteq> path"
  by (simp add: tmp_name_def)


subsection \<open>What the directory step can change\<close>

lemma only_dirs_added_refl: "only_dirs_added fs fs"
  by (simp add: only_dirs_added_def)

lemma only_dirs_added_trans:
  assumes "only_dirs_added fs fs1" and "only_dirs_added fs1 fs2"
  shows "only_dirs_added fs fs2"
  unfolding only_dirs_added_def
proof
  fix n
  from assms(1) have a: "fs1 n = fs n \<or> (fs n = None \<and> fs1 n = Some Dir)"
    by (simp add: only_dirs_added_def)
  from assms(2) have b: "fs2 n = fs1 n \<or> (fs1 n = None \<and> fs2 n = Some Dir)"
    by (simp add: only_dirs_added_def)
  from a b show "fs2 n = fs n \<or> (fs n = None \<and> fs2 n = Some Dir)"
    by auto
qed

lemma only_dirs_added_keeps: "only_dirs_added fs fs' \<Longrightarrow> fs n = Some x \<Longrightarrow> fs' n = Some x"
  by (auto simp: only_dirs_added_def dest: spec [of _ n])

lemma only_dirs_added_unbound: "only_dirs_added fs fs' \<Longrightarrow> fs' n = None \<Longrightarrow> fs n = None"
  by (auto simp: only_dirs_added_def dest: spec [of _ n])

lemma Mkdir_adds: "only_dirs_added fs (snd (Mkdir env fs name))"
  by (auto simp: Mkdir_def only_dirs_added_def split: option.splits list.splits)

lemma mkdir_leaf_adds: "only_dirs_added fs (snd (mkdir_leaf env fs path))"
proof -
  have "snd (mkdir_leaf env fs path) = snd (Mkdir env fs path)"
    by (auto simp: mkdir_leaf_def split: prod.splits option.splits sum.splits node.splits)
  then show ?thesis
    by (simp add: Mkdir_adds)
qed

lemma mkdir_all_adds: "only_dirs_added fs (snd (mkdir_all env fs path))"
proof (induction env fs path rule: mkdir_all.induct)
  case (1 env fs path)
  show ?case
  proof (cases "Stat env fs path")
    case (Inr nd)
    then show ?thesis
      by (subst mkdir_all.simps) (simp add: only_dirs_added_refl split: node.splits)
  next
    case (Inl e)
    show ?thesis
    proof (cases "parent_of path = []")
      case True
      with Inl have "mkdir_all env fs path = mkdir_leaf env fs path"
        by (subst mkdir_all.simps) simp
      then show ?thesis
        by (simp add: mkdir_leaf_adds)
    next
      case False
      from "1.IH" [OF Inl False]
      have up: "only_dirs_added fs (snd (mkdir_all env fs (parent_of path)))" .
      obtain r fs1 where p: "mkdir_all env fs (parent_of path) = (r, fs1)"
        by (cases "mkdir_all env fs (parent_of path)")
      from up p have up1: "only_dirs_added fs fs1" by simp
      show ?thesis
      proof (cases r)
        case None
        with Inl False p have "mkdir_all env fs path = mkdir_leaf env fs1 path"
          by (subst mkdir_all.simps) simp
        with up1 mkdir_leaf_adds [of fs1 env path] show ?thesis
          by (auto intro: only_dirs_added_trans)
      next
        case (Some e1)
        with Inl False p have "mkdir_all env fs path = (Some e1, fs1)"
          by (subst mkdir_all.simps) simp
        with up1 show ?thesis by simp
      qed
    qed
  qed
qed



subsection \<open>Each operation in closed form\<close>

lemma MkdirAll_closed:
  "MkdirAll env s path
   = (fst (mkdir_all env (files s) path),
      \<lparr>files = after_mkdir env s path, trace = trace s @ [EvMkdirAll path]\<rparr>)"
  by (simp add: MkdirAll_def after_mkdir_def emit_def split: prod.splits)

lemma MkdirAll_ensured:
  assumes "dir_ensured env s path"
  shows "MkdirAll env s path
         = (None, \<lparr>files = after_mkdir env s path, trace = trace s @ [EvMkdirAll path]\<rparr>)"
  using assms by (simp add: dir_ensured_def MkdirAll_closed)

lemma after_mkdir_adds: "only_dirs_added (files s) (after_mkdir env s path)"
  by (simp add: after_mkdir_def mkdir_all_adds)


lemma OpenFile_refused:
  assumes "OpenFile env s n fl = (Inl e, s2)"
  shows "s2 = \<lparr>files = files s, trace = trace s @ [EvOpenFile n fl]\<rparr>"
  using assms
  by (auto simp: OpenFile_def Let_def emit_def
      split: option.splits open_flag.splits node.splits list.splits sum.splits)

lemma OpenFile_excl_granted:
  assumes "OpenFile env s n O_EXCL = (Inr fp, s2)"
  shows "fp = \<lparr>h_name = n, h_file = n\<rparr>" and "files s n = None"
    and "s2 = \<lparr>files = (files s)(n \<mapsto> File []), trace = trace s @ [EvOpenFile n O_EXCL]\<rparr>"
  using assms
  by (auto simp: OpenFile_def Let_def emit_def split: option.splits list.splits)

lemma OpenFile_granted:
  assumes "OpenFile env s n fl = (Inr fp, s2)"
  shows "h_name fp = n" and "files s2 (h_file fp) = Some (File [])"
  using assms
  by (auto simp: OpenFile_def Let_def emit_def
      split: option.splits open_flag.splits node.splits list.splits sum.splits)

lemma temp_created_dir: "temp_created env s path file \<Longrightarrow> dir_ensured env s path"
  by (auto simp: temp_created_def dir_ensured_def split: prod.splits option.splits)

lemma temp_created_closed:
  assumes "temp_created env s path file"
  shows "after_mkdir env s path (tmp_name env path file) = None"
    and "OpenFile env \<lparr>files = after_mkdir env s path, trace = trace s @ [EvMkdirAll path]\<rparr>
            (tmp_name env path file) O_EXCL
         = (Inr \<lparr>h_name = tmp_name env path file, h_file = tmp_name env path file\<rparr>,
            \<lparr>files = (after_mkdir env s path)(tmp_name env path file \<mapsto> File []),
             trace = trace s @ [EvMkdirAll path, EvOpenFile (tmp_name env path file) O_EXCL]\<rparr>)"
proof -
  let ?s1 = "\<lparr>files = after_mkdir env s path, trace = trace s @ [EvMkdirAll path]\<rparr>"
  let ?tmp = "tmp_name env path file"
  have mk: "MkdirAll env s path = (None, ?s1)"
    using assms by (intro MkdirAll_ensured temp_created_dir)
  obtain fp s2 where op: "OpenFile env ?s1 ?tmp O_EXCL = (Inr fp, s2)"
    using assms by (auto simp: temp_created_def mk split: prod.splits sum.splits)
  note r = OpenFile_excl_granted [OF op]
  from r(2) show "after_mkdir env s path ?tmp = None"
    by simp
  from r op show "OpenFile env ?s1 ?tmp O_EXCL
         = (Inr \<lparr>h_name = ?tmp, h_file = ?tmp\<rparr>,
            \<lparr>files = (after_mkdir env s path)(?tmp \<mapsto> File []),
             trace = trace s @ [EvMkdirAll path, EvOpenFile ?tmp O_EXCL]\<rparr>)"
    by simp
qed

lemma temp_created_fresh:
  assumes "temp_created env s path file"
  shows "files s (tmp_name env path file) = None"
  using only_dirs_added_unbound [OF after_mkdir_adds temp_created_closed(1) [OF assms]] .

lemma written_full: "\<not> short_write env data \<Longrightarrow> written env data = length data"
  by (auto simp: short_write_def written_def split: option.splits)

lemma Write_closed:
  assumes "files s (h_file fp) = Some (File [])"
  shows "Write env s fp data
         = (written env data,
            (case write_fault env of
               Some e \<Rightarrow> Some (PathError ''write'' (h_name fp) e)
             | None \<Rightarrow> if written env data = length data then None else Some ErrShortWrite),
            \<lparr>files = (files s)(h_file fp \<mapsto> File (take (written env data) data)),
             trace = trace s @ [EvWrite (h_name fp) (written env data)]\<rparr>)"
  using assms by (simp add: Write_def Let_def emit_def)

lemma Sync_closed:
  "Sync env s fp
   = ((case sync_fault env of Some e \<Rightarrow> Some (PathError ''sync'' (h_name fp) e) | None \<Rightarrow> None),
      \<lparr>files = files s, trace = trace s @ [EvSync (h_name fp)]\<rparr>)"
  by (simp add: Sync_def Let_def emit_def split: option.splits)

lemma Close_closed:
  "snd (Close s fp) = \<lparr>files = files s, trace = trace s @ [EvClose (h_name fp)]\<rparr>"
  by (simp add: Close_def emit_def)

lemma Remove_closed:
  assumes "files s n = Some (File c)"
  shows "snd (Remove env s n)
         = \<lparr>files = (case remove_fault env of None \<Rightarrow> (files s)(n := None) | Some e \<Rightarrow> files s),
            trace = trace s @ [EvRemove n]\<rparr>"
  using assms by (simp add: Remove_def Let_def emit_def split: option.splits)

lemma Rename_file_cases:
  assumes "files s oldname = Some (File c)" and "oldname \<noteq> newname"
  shows "(\<exists>e. Rename env s oldname newname
              = (Some e, \<lparr>files = files s, trace = trace s @ [EvRename oldname newname]\<rparr>))
       \<or> Rename env s oldname newname
              = (None, \<lparr>files = (files s)(oldname := None, newname \<mapsto> File c),
                    trace = trace s @ [EvRename oldname newname]\<rparr>)"
  using assms
  by (auto simp: Rename_def rename_entry_def Let_def emit_def
      split: option.splits sum.splits node.splits)

subsection \<open>The five ways a call of SaveData2 can go\<close>

lemma SaveData2_folder_fails:
  assumes "\<not> dir_ensured env s path"
  shows "SaveData2 env s path file data
         = (Some FolderErr,
            \<lparr>files = after_mkdir env s path, trace = trace s @ [EvMkdirAll path]\<rparr>)"
    and "map files (SaveData2_states env s path file data) = [files s, after_mkdir env s path]"
proof -
  obtain e where mk: "fst (mkdir_all env (files s) path) = Some e"
    using assms by (auto simp: dir_ensured_def MkdirAll_closed)
  show "SaveData2 env s path file data
         = (Some FolderErr,
            \<lparr>files = after_mkdir env s path, trace = trace s @ [EvMkdirAll path]\<rparr>)"
    by (simp add: SaveData2_def Let_def MkdirAll_closed mk)
  show "map files (SaveData2_states env s path file data) = [files s, after_mkdir env s path]"
    by (simp add: SaveData2_states_def Let_def MkdirAll_closed mk)
qed

lemma SaveData2_open_fails:
  assumes "dir_ensured env s path" and "\<not> temp_created env s path file"
  shows "SaveData2 env s path file data
         = (Some OpenErr,
            \<lparr>files = after_mkdir env s path,
             trace = trace s @ [EvMkdirAll path, EvOpenFile (tmp_name env path file) O_EXCL]\<rparr>)"
    and "map files (SaveData2_states env s path file data)
         = [files s, after_mkdir env s path, after_mkdir env s path]"
proof -
  let ?s1 = "\<lparr>files = after_mkdir env s path, trace = trace s @ [EvMkdirAll path]\<rparr>"
  let ?tmp = "tmp_name env path file"
  have mk: "MkdirAll env s path = (None, ?s1)"
    using assms(1) by (rule MkdirAll_ensured)
  obtain e s2 where op: "OpenFile env ?s1 ?tmp O_EXCL = (Inl e, s2)"
    using assms(2) by (cases "OpenFile env ?s1 ?tmp O_EXCL")
      (auto simp: temp_created_def mk split: sum.splits)
  note s2 = OpenFile_refused [OF op]
  from s2 show "SaveData2 env s path file data
         = (Some OpenErr,
            \<lparr>files = after_mkdir env s path,
             trace = trace s @ [EvMkdirAll path, EvOpenFile ?tmp O_EXCL]\<rparr>)"
    by (simp add: SaveData2_def Let_def mk op)
  from s2 show "map files (SaveData2_states env s path file data)
         = [files s, after_mkdir env s path, after_mkdir env s path]"
    by (simp add: SaveData2_states_def Let_def mk op)
qed

lemma SaveData2_write_fails:
  assumes "temp_created env s path file" and "write_errs env \<or> short_write env data"
  shows "SaveData2 env s path file data
         = (Some WriteErr,
            \<lparr>files = (case remove_fault env of
                        None \<Rightarrow> after_mkdir env s path
                      | Some e \<Rightarrow> (after_mkdir env s path)
                          (tmp_name env path file \<mapsto> File (take (written env data) data))),
             trace = trace s @ [EvMkdirAll path, EvOpenFile (tmp_name env path file) O_EXCL,
                       EvWrite (tmp_name env path file) (written env data),
                       EvClose (tmp_name env path file), EvRemove (tmp_name env path file)]\<rparr>)"
    and "map files (SaveData2_states env s path file data)
         = [files s, after_mkdir env s path,
            (after_mkdir env s path)(tmp_name env path file \<mapsto> File []),
            (after_mkdir env s path)
              (tmp_name env path file \<mapsto> File (take (written env data) data)),
            (after_mkdir env s path)
              (tmp_name env path file \<mapsto> File (take (written env data) data)),
            (case remove_fault env of
               None \<Rightarrow> after_mkdir env s path
             | Some e \<Rightarrow> (after_mkdir env s path)
                 (tmp_name env path file \<mapsto> File (take (written env data) data)))]"
proof -
  let ?F = "after_mkdir env s path"
  let ?s1 = "\<lparr>files = ?F, trace = trace s @ [EvMkdirAll path]\<rparr>"
  let ?tmp = "tmp_name env path file"
  let ?fp = "\<lparr>h_name = ?tmp, h_file = ?tmp\<rparr>"
  let ?n = "written env data"
  let ?s2 = "\<lparr>files = ?F(?tmp \<mapsto> File []),
             trace = trace s @ [EvMkdirAll path, EvOpenFile ?tmp O_EXCL]\<rparr>"
  let ?s3 = "\<lparr>files = ?F(?tmp \<mapsto> File (take ?n data)),
             trace = trace s @ [EvMkdirAll path, EvOpenFile ?tmp O_EXCL, EvWrite ?tmp ?n]\<rparr>"
  let ?s4 = "\<lparr>files = ?F(?tmp \<mapsto> File (take ?n data)),
             trace = trace s @ [EvMkdirAll path, EvOpenFile ?tmp O_EXCL, EvWrite ?tmp ?n,
                       EvClose ?tmp]\<rparr>"
  let ?s5 = "\<lparr>files = (case remove_fault env of
                        None \<Rightarrow> ?F
                      | Some e \<Rightarrow> ?F(?tmp \<mapsto> File (take ?n data))),
          trace = trace s @ [EvMkdirAll path, EvOpenFile ?tmp O_EXCL, EvWrite ?tmp ?n,
                     EvClose ?tmp, EvRemove ?tmp]\<rparr>"
  have mk: "MkdirAll env s path = (None, ?s1)"
    using assms(1) by (intro MkdirAll_ensured temp_created_dir)
  note absent = temp_created_closed(1) [OF assms(1)]
  note op = temp_created_closed(2) [OF assms(1)]
  have "files ?s2 (h_file ?fp) = Some (File [])" by simp
  from Write_closed [OF this, of env data] assms(2)
  obtain e where wr: "Write env ?s2 ?fp data = (?n, Some e, ?s3)"
    by (auto simp: write_errs_def short_write_def split: option.splits)
  have cl: "snd (Close ?s3 ?fp) = ?s4"
    by (simp add: Close_closed)
  have "files ?s4 ?tmp = Some (File (take ?n data))" by simp
  from Remove_closed [OF this, of env]
  have rm: "snd (Remove env ?s4 ?tmp) = ?s5"
    using absent by (auto simp: fun_upd_idem split: option.splits)
  show "SaveData2 env s path file data = (Some WriteErr, ?s5)"
    by (simp add: SaveData2_def Let_def mk op wr deferred_def cl rm)
  show "map files (SaveData2_states env s path file data)
         = [files s, ?F, ?F(?tmp \<mapsto> File []), ?F(?tmp \<mapsto> File (take ?n data)),
            ?F(?tmp \<mapsto> File (take ?n data)),
            (case remove_fault env of
               None \<Rightarrow> ?F
             | Some e \<Rightarrow> ?F(?tmp \<mapsto> File (take ?n data)))]"
    by (simp add: SaveData2_states_def Let_def mk op wr deferred_states_def cl rm)
qed

lemma SaveData2_sync_fails:
  assumes "temp_created env s path file"
    and "\<not> write_errs env" and "\<not> short_write env data" and "sync_errs env"
  shows "SaveData2 env s path file data
         = (Some SyncErr,
            \<lparr>files = (case remove_fault env of
                        None \<Rightarrow> after_mkdir env s path
                      | Some e \<Rightarrow> (after_mkdir env s path)(tmp_name env path file \<mapsto> File data)),
             trace = trace s @ [EvMkdirAll path, EvOpenFile (tmp_name env path file) O_EXCL,
                       EvWrite (tmp_name env path file) (length data),
                       EvSync (tmp_name env path file),
                       EvClose (tmp_name env path file), EvRemove (tmp_name env path file)]\<rparr>)"
    and "map files (SaveData2_states env s path file data)
         = [files s, after_mkdir env s path,
            (after_mkdir env s path)(tmp_name env path file \<mapsto> File []),
            (after_mkdir env s path)(tmp_name env path file \<mapsto> File data),
            (after_mkdir env s path)(tmp_name env path file \<mapsto> File data),
            (after_mkdir env s path)(tmp_name env path file \<mapsto> File data),
            (case remove_fault env of
               None \<Rightarrow> after_mkdir env s path
             | Some e \<Rightarrow> (after_mkdir env s path)(tmp_name env path file \<mapsto> File data))]"
proof -
  let ?F = "after_mkdir env s path"
  let ?s1 = "\<lparr>files = ?F, trace = trace s @ [EvMkdirAll path]\<rparr>"
  let ?tmp = "tmp_name env path file"
  let ?fp = "\<lparr>h_name = ?tmp, h_file = ?tmp\<rparr>"
  let ?n = "length data"
  let ?s2 = "\<lparr>files = ?F(?tmp \<mapsto> File []),
             trace = trace s @ [EvMkdirAll path, EvOpenFile ?tmp O_EXCL]\<rparr>"
  let ?s3 = "\<lparr>files = ?F(?tmp \<mapsto> File data),
             trace = trace s @ [EvMkdirAll path, EvOpenFile ?tmp O_EXCL, EvWrite ?tmp ?n]\<rparr>"
  let ?s4 = "\<lparr>files = ?F(?tmp \<mapsto> File data),
             trace = trace s @ [EvMkdirAll path, EvOpenFile ?tmp O_EXCL, EvWrite ?tmp ?n,
                       EvSync ?tmp]\<rparr>"
  let ?s5 = "\<lparr>files = ?F(?tmp \<mapsto> File data),
             trace = trace s @ [EvMkdirAll path, EvOpenFile ?tmp O_EXCL, EvWrite ?tmp ?n,
                       EvSync ?tmp, EvClose ?tmp]\<rparr>"
  let ?s6 = "\<lparr>files = (case remove_fault env of
                        None \<Rightarrow> ?F
                      | Some e \<Rightarrow> ?F(?tmp \<mapsto> File data)),
          trace = trace s @ [EvMkdirAll path, EvOpenFile ?tmp O_EXCL, EvWrite ?tmp ?n,
                     EvSync ?tmp, EvClose ?tmp, EvRemove ?tmp]\<rparr>"
  have mk: "MkdirAll env s path = (None, ?s1)"
    using assms(1) by (intro MkdirAll_ensured temp_created_dir)
  note absent = temp_created_closed(1) [OF assms(1)]
  note op = temp_created_closed(2) [OF assms(1)]
  have "files ?s2 (h_file ?fp) = Some (File [])" by simp
  from Write_closed [OF this, of env data] assms(2) written_full [OF assms(3)]
  have wr: "Write env ?s2 ?fp data = (?n, None, ?s3)"
    by (auto simp: write_errs_def split: option.splits)
  from assms(4) obtain e where sy: "Sync env ?s3 ?fp = (Some e, ?s4)"
    by (auto simp: Sync_closed sync_errs_def split: option.splits)
  have cl: "snd (Close ?s4 ?fp) = ?s5"
    by (simp add: Close_closed)
  have "files ?s5 ?tmp = Some (File data)" by simp
  from Remove_closed [OF this, of env]
  have rm: "snd (Remove env ?s5 ?tmp) = ?s6"
    using absent by (auto simp: fun_upd_idem split: option.splits)
  show "SaveData2 env s path file data = (Some SyncErr, ?s6)"
    by (simp add: SaveData2_def Let_def mk op wr sy deferred_def cl rm)
  show "map files (SaveData2_states env s path file data)
         = [files s, ?F, ?F(?tmp \<mapsto> File []), ?F(?tmp \<mapsto> File data),
            ?F(?tmp \<mapsto> File data), ?F(?tmp \<mapsto> File data),
            (case remove_fault env of
               None \<Rightarrow> ?F
             | Some e \<Rightarrow> ?F(?tmp \<mapsto> File data))]"
    by (simp add: SaveData2_states_def Let_def mk op wr sy deferred_states_def cl rm)
qed

text \<open>
  At the rename the call either returns the error of \<open>os.Rename\<close> and leaves the
  temporary file, or returns \<open>nil\<close> with the payload under the name \<open>path\<close>.
\<close>

lemma SaveData2_rename_step:
  assumes "temp_created env s path file"
    and "\<not> write_errs env" and "\<not> short_write env data" and "\<not> sync_errs env"
  shows "\<exists>r G. SaveData2 env s path file data
           = (r, \<lparr>files = G,
                  trace = trace s @ [EvMkdirAll path, EvOpenFile (tmp_name env path file) O_EXCL,
                       EvWrite (tmp_name env path file) (length data),
                       EvSync (tmp_name env path file),
                       EvRename (tmp_name env path file) path,
                       EvClose (tmp_name env path file)]\<rparr>)
         \<and> map files (SaveData2_states env s path file data)
           = [files s, after_mkdir env s path,
              (after_mkdir env s path)(tmp_name env path file \<mapsto> File []),
              (after_mkdir env s path)(tmp_name env path file \<mapsto> File data),
              (after_mkdir env s path)(tmp_name env path file \<mapsto> File data), G, G]
         \<and> ((r \<noteq> None \<and> G = (after_mkdir env s path)(tmp_name env path file \<mapsto> File data))
            \<or> (r = None \<and> G = (after_mkdir env s path)
                  (tmp_name env path file := None, path \<mapsto> File data)))"
proof -
  let ?F = "after_mkdir env s path"
  let ?s1 = "\<lparr>files = ?F, trace = trace s @ [EvMkdirAll path]\<rparr>"
  let ?tmp = "tmp_name env path file"
  let ?fp = "\<lparr>h_name = ?tmp, h_file = ?tmp\<rparr>"
  let ?n = "length data"
  let ?s2 = "\<lparr>files = ?F(?tmp \<mapsto> File []),
             trace = trace s @ [EvMkdirAll path, EvOpenFile ?tmp O_EXCL]\<rparr>"
  let ?s3 = "\<lparr>files = ?F(?tmp \<mapsto> File data),
             trace = trace s @ [EvMkdirAll path, EvOpenFile ?tmp O_EXCL, EvWrite ?tmp ?n]\<rparr>"
  let ?s4 = "\<lparr>files = ?F(?tmp \<mapsto> File data),
             trace = trace s @ [EvMkdirAll path, EvOpenFile ?tmp O_EXCL, EvWrite ?tmp ?n,
                       EvSync ?tmp]\<rparr>"
  have mk: "MkdirAll env s path = (None, ?s1)"
    using assms(1) by (intro MkdirAll_ensured temp_created_dir)
  note op = temp_created_closed(2) [OF assms(1)]
  have "files ?s2 (h_file ?fp) = Some (File [])" by simp
  from Write_closed [OF this, of env data] assms(2) written_full [OF assms(3)]
  have wr: "Write env ?s2 ?fp data = (?n, None, ?s3)"
    by (auto simp: write_errs_def split: option.splits)
  from assms(4) have sy: "Sync env ?s3 ?fp = (None, ?s4)"
    by (auto simp: Sync_closed sync_errs_def split: option.splits)
  have old: "files ?s4 ?tmp = Some (File data)" by simp
  from Rename_file_cases [OF old tmp_neq_path, of env]
  consider (refused) e where
      "Rename env ?s4 ?tmp path
       = (Some e, \<lparr>files = ?F(?tmp \<mapsto> File data), trace = trace ?s4 @ [EvRename ?tmp path]\<rparr>)"
    | (moved)
      "Rename env ?s4 ?tmp path
       = (None, \<lparr>files = ?F(?tmp := None, path \<mapsto> File data),
                trace = trace ?s4 @ [EvRename ?tmp path]\<rparr>)"
    by auto
  then show ?thesis
  proof cases
    case refused
    then show ?thesis
      by (simp add: SaveData2_def SaveData2_states_def Let_def mk op wr sy
          deferred_def deferred_states_def Close_closed)
  next
    case moved
    then show ?thesis
      by (simp add: SaveData2_def SaveData2_states_def Let_def mk op wr sy
          deferred_def deferred_states_def Close_closed)
  qed
qed

lemma SaveData2_outcomes:
  obtains
    (at_mkdir) "\<not> dir_ensured env s path"
  | (at_open) "dir_ensured env s path" "\<not> temp_created env s path fname"
  | (at_write) "temp_created env s path fname" "write_errs env \<or> short_write env data"
  | (at_sync) "temp_created env s path fname" "\<not> write_errs env" "\<not> short_write env data"
      "sync_errs env"
  | (at_rename) "temp_created env s path fname" "\<not> write_errs env" "\<not> short_write env data"
      "\<not> sync_errs env"
  by blast




text \<open>
  A call that returns \<open>nil\<close> has put the payload under the name \<open>path\<close>; a call that
  reaches the rename and returns its error has left the temporary file, with the
  payload, and has not tried to remove it.
\<close>

lemma SaveData2_nil_puts_payload_at_path:
  assumes "fst (SaveData2 env s path file data) = None"
  shows "files (snd (SaveData2 env s path file data)) path = Some (File data)"
    and "files (snd (SaveData2 env s path file data)) (tmp_name env path file) = None"
proof -
  have "files (snd (SaveData2 env s path file data)) path = Some (File data)
      \<and> files (snd (SaveData2 env s path file data)) (tmp_name env path file) = None"
  proof (cases rule: SaveData2_outcomes
      [where env = env and s = s and path = path and fname = "file" and data = data])
    case at_mkdir
    with assms show ?thesis by (simp add: SaveData2_folder_fails(1))
  next
    case at_open
    with assms show ?thesis by (simp add: SaveData2_open_fails(1))
  next
    case at_write
    with assms show ?thesis by (simp add: SaveData2_write_fails(1))
  next
    case at_sync
    with assms show ?thesis by (simp add: SaveData2_sync_fails(1))
  next
    case at_rename
    from SaveData2_rename_step [OF at_rename] assms tmp_neq_path [of env path "file"]
    show ?thesis by auto
  qed
  then show "files (snd (SaveData2 env s path file data)) path = Some (File data)"
    and "files (snd (SaveData2 env s path file data)) (tmp_name env path file) = None"
    by simp_all
qed

lemma rename_error_keeps_temp:
  assumes "temp_created env s path file"
    and "\<not> write_errs env" and "\<not> short_write env data" and "\<not> sync_errs env"
    and "fst (SaveData2 env s path file data) \<noteq> None"
  shows "files (snd (SaveData2 env s path file data)) (tmp_name env path file)
           = Some (File data)"
    and "EvRemove (tmp_name env path file)
           \<notin> set (trace (snd (SaveData2 env s path file data))) - set (trace s)"
proof -
  from SaveData2_rename_step [OF assms(1-4)] assms(5)
  have "files (snd (SaveData2 env s path file data)) (tmp_name env path file) = Some (File data)
      \<and> EvRemove (tmp_name env path file)
           \<notin> set (trace (snd (SaveData2 env s path file data))) - set (trace s)"
    by auto
  then show "files (snd (SaveData2 env s path file data)) (tmp_name env path file)
           = Some (File data)"
    and "EvRemove (tmp_name env path file)
           \<notin> set (trace (snd (SaveData2 env s path file data))) - set (trace s)"
    by simp_all
qed

subsection \<open>C1: what the final rename does\<close>

text \<open>
  C1 asks that a call of \<open>SaveData2\<close> that returns success has renamed the temporary
  file to \<open>path+file\<close>, which then holds the payload. The last statement renames to
  \<open>path\<close>. Where \<open>path\<close> is a directory \<open>os.Rename\<close> refuses and the call fails; where
  \<open>path\<close> is a symbolic link to a directory, as \<open>data\<close> is here, the call returns
  \<open>nil\<close>: the payload is under the name \<open>data\<close>, in place of the link, and
  \<open>data/hello.txt\<close> does not exist.
\<close>

theorem success_leaves_payload_at_path:
  "fst (SaveData2 (calm 42) disk_link ''data'' ''/hello.txt'' ''Bye, World!'') = None
   \<and> files (snd (SaveData2 (calm 42) disk_link ''data'' ''/hello.txt'' ''Bye, World!''))
        ''data/hello.txt'' = None
   \<and> files disk_link ''data'' = Some (Symlink ''store/'')
   \<and> files (snd (SaveData2 (calm 42) disk_link ''data'' ''/hello.txt'' ''Bye, World!''))
        ''data'' = Some (File ''Bye, World!'')
   \<and> trace (snd (SaveData2 (calm 42) disk_link ''data'' ''/hello.txt'' ''Bye, World!''))
     = [EvMkdirAll ''data'', EvOpenFile ''data/hello.txt.tmp.42'' O_EXCL,
        EvWrite ''data/hello.txt.tmp.42'' 11, EvSync ''data/hello.txt.tmp.42'',
        EvRename ''data/hello.txt.tmp.42'' ''data'', EvClose ''data/hello.txt.tmp.42'']"
  by (simp add: SaveData2_def os_defs disk_defs)

subsection \<open>C2: a failing rename\<close>

text \<open>
  C2 asks that a failing rename is returned and the temporary file deleted. The error is
  returned, but the deferred function tests the local \<open>err\<close>, which the \<open>return\<close> of
  \<open>os.Rename\<close>'s result does not set: no \<open>os.Remove\<close> is performed and the temporary
  file stays, with the whole payload in it.
\<close>

theorem failed_rename_leaves_temp:
  "fst (SaveData2 ((calm 7)\<lparr>rename_fault := Some EACCES\<rparr>) disk_hello ''./data/'' ''hello.txt''
        ''Bye, World!'')
     = Some (LinkError ''rename'' ''./data/hello.txt.tmp.7'' ''./data/'' EEXIST)
   \<and> files (snd (SaveData2 ((calm 7)\<lparr>rename_fault := Some EACCES\<rparr>) disk_hello ''./data/''
        ''hello.txt'' ''Bye, World!'')) ''./data/hello.txt.tmp.7'' = Some (File ''Bye, World!'')
   \<and> EvRemove ''./data/hello.txt.tmp.7''
       \<notin> set (trace (snd (SaveData2 ((calm 7)\<lparr>rename_fault := Some EACCES\<rparr>) disk_hello
           ''./data/'' ''hello.txt'' ''Bye, World!'')))"
  by (simp add: SaveData2_def os_defs disk_defs)

subsection \<open>C3: a failed write or sync\<close>

text \<open>
  As the claim is worded (whenever the write or the sync fails, no temporary file
  remains) it does not hold: the deferred function drops the result of \<open>os.Remove\<close>,
  so when the removal fails too the call still returns \<open>WriteErr\<close> and the partly
  written temporary file stays. Here the device takes three bytes and the removal
  fails with \<open>EIO\<close>.
\<close>

theorem failed_cleanup_leaves_temp:
  "temp_created ((calm 42)\<lparr>write_limit := Some 3, remove_fault := Some EIO\<rparr>) disk_hello
      ''./data/'' ''hello.txt''
   \<and> short_write ((calm 42)\<lparr>write_limit := Some 3, remove_fault := Some EIO\<rparr>) ''Bye, World!''
   \<and> fst (SaveData2 ((calm 42)\<lparr>write_limit := Some 3, remove_fault := Some EIO\<rparr>) disk_hello
        ''./data/'' ''hello.txt'' ''Bye, World!'') = Some WriteErr
   \<and> files (snd (SaveData2 ((calm 42)\<lparr>write_limit := Some 3, remove_fault := Some EIO\<rparr>)
        disk_hello ''./data/'' ''hello.txt'' ''Bye, World!'')) ''./data/hello.txt.tmp.42''
       = Some (File ''Bye'')"
  by (simp add: temp_created_def short_write_def SaveData2_def os_defs disk_defs)

text \<open>
  C3 (amended). When \<open>SaveData2\<close> has created its temporary file, the write or the sync
  fails, and the removal of the temporary file does not itself fail, then the call
  returns \<open>WriteErr\<close> (write) or \<open>SyncErr\<close> (sync), the temporary name is unbound
  afterwards, the files are those the directory step left (the files before the call
  and, at most, new directories), and a regular file at \<open>path+file\<close> has the bytes it
  had.
\<close>

theorem failed_write_or_sync_leaves_no_temp:
  assumes "temp_created env s path file"
    and "write_errs env \<or> short_write env data \<or> sync_errs env"
    and "remove_fault env = None"
  shows "fst (SaveData2 env s path file data)
           = Some (if write_errs env \<or> short_write env data then WriteErr else SyncErr)
       \<and> files (snd (SaveData2 env s path file data)) (tmp_name env path file) = None
       \<and> files (snd (SaveData2 env s path file data)) = after_mkdir env s path
       \<and> only_dirs_added (files s) (files (snd (SaveData2 env s path file data)))
       \<and> (\<forall>c. files s (path @ file) = Some (File c)
              \<longrightarrow> files (snd (SaveData2 env s path file data)) (path @ file) = Some (File c))"
proof -
  note absent = temp_created_closed(1) [OF assms(1)]
  have final: "files (snd (SaveData2 env s path file data)) = after_mkdir env s path"
  proof (cases "write_errs env \<or> short_write env data")
    case True
    from SaveData2_write_fails(1) [OF assms(1) True] assms(3) show ?thesis by simp
  next
    case False
    with assms(2) have "sync_errs env" by simp
    from False this SaveData2_sync_fails(1) [OF assms(1)] assms(3) show ?thesis by simp
  qed
  have res: "fst (SaveData2 env s path file data)
           = Some (if write_errs env \<or> short_write env data then WriteErr else SyncErr)"
  proof (cases "write_errs env \<or> short_write env data")
    case True
    from SaveData2_write_fails(1) [OF assms(1) True] True show ?thesis by simp
  next
    case False
    with assms(2) have "sync_errs env" by simp
    from False this SaveData2_sync_fails(1) [OF assms(1)] show ?thesis by simp
  qed
  have gone: "files (snd (SaveData2 env s path file data)) (tmp_name env path file) = None"
    using absent by (simp add: final)
  have adds: "only_dirs_added (files s) (files (snd (SaveData2 env s path file data)))"
    by (simp add: final after_mkdir_adds)
  have kept: "\<forall>c. files s (path @ file) = Some (File c)
              \<longrightarrow> files (snd (SaveData2 env s path file data)) (path @ file) = Some (File c)"
    using only_dirs_added_keeps [OF adds] by blast
  from res gone final adds kept show ?thesis by blast
qed

text \<open>
  Both branches at work: a short write, and a sync that fails with \<open>EIO\<close>.
\<close>

theorem failed_write_or_sync_leaves_no_temp_witness:
  "temp_created ((calm 42)\<lparr>write_limit := Some 3\<rparr>) disk_hello ''./data/'' ''hello.txt''
   \<and> short_write ((calm 42)\<lparr>write_limit := Some 3\<rparr>) ''Bye, World!''
   \<and> remove_fault ((calm 42)\<lparr>write_limit := Some 3\<rparr>) = None
   \<and> fst (SaveData2 ((calm 42)\<lparr>write_limit := Some 3\<rparr>) disk_hello ''./data/'' ''hello.txt''
        ''Bye, World!'') = Some WriteErr
   \<and> files (snd (SaveData2 ((calm 42)\<lparr>write_limit := Some 3\<rparr>) disk_hello ''./data/''
        ''hello.txt'' ''Bye, World!'')) ''./data/hello.txt.tmp.42'' = None
   \<and> files (snd (SaveData2 ((calm 42)\<lparr>write_limit := Some 3\<rparr>) disk_hello ''./data/''
        ''hello.txt'' ''Bye, World!'')) ''./data/hello.txt'' = Some (File ''Hello, World!'')
   \<and> temp_created ((calm 42)\<lparr>sync_fault := Some EIO\<rparr>) disk_hello ''./data/'' ''hello.txt''
   \<and> sync_errs ((calm 42)\<lparr>sync_fault := Some EIO\<rparr>)
   \<and> fst (SaveData2 ((calm 42)\<lparr>sync_fault := Some EIO\<rparr>) disk_hello ''./data/'' ''hello.txt''
        ''Bye, World!'') = Some SyncErr
   \<and> files (snd (SaveData2 ((calm 42)\<lparr>sync_fault := Some EIO\<rparr>) disk_hello ''./data/''
        ''hello.txt'' ''Bye, World!'')) ''./data/hello.txt.tmp.42'' = None"
proof -
  let ?w = "(calm 42)\<lparr>write_limit := Some 3\<rparr>"
  let ?y = "(calm 42)\<lparr>sync_fault := Some EIO\<rparr>"
  have tmp: "tmp_name ?w ''./data/'' ''hello.txt'' = ''./data/hello.txt.tmp.42''"
    "tmp_name ?y ''./data/'' ''hello.txt'' = ''./data/hello.txt.tmp.42''"
    by (simp_all add: calm_def tmp_name_def Itoa_def digit_def)
  have w1: "temp_created ?w disk_hello ''./data/'' ''hello.txt''"
    by (simp add: temp_created_def os_defs disk_defs)
  have w2: "short_write ?w ''Bye, World!''"
    by (simp add: short_write_def written_def calm_def)
  have w3: "remove_fault ?w = None"
    by (simp add: calm_def)
  have y1: "temp_created ?y disk_hello ''./data/'' ''hello.txt''"
    by (simp add: temp_created_def os_defs disk_defs)
  have y2: "sync_errs ?y"
    by (simp add: sync_errs_def calm_def)
  have y3: "remove_fault ?y = None"
    by (simp add: calm_def)
  have y4: "\<not> write_errs ?y" "\<not> short_write ?y ''Bye, World!''"
    by (simp_all add: write_errs_def short_write_def written_def calm_def)
  have old: "files disk_hello ''./data/hello.txt'' = Some (File ''Hello, World!'')"
    by (simp add: disk_hello_def)
  from w2 have w5: "write_errs ?w \<or> short_write ?w ''Bye, World!'' \<or> sync_errs ?w" by simp
  from y2 have y5: "write_errs ?y \<or> short_write ?y ''Bye, World!'' \<or> sync_errs ?y" by simp
  note W = failed_write_or_sync_leaves_no_temp [OF w1 w5 w3, unfolded tmp]
  note Y = failed_write_or_sync_leaves_no_temp [OF y1 y5 y3, unfolded tmp]
  from W [THEN conjunct1] w2
  have a1: "fst (SaveData2 ?w disk_hello ''./data/'' ''hello.txt'' ''Bye, World!'') = Some WriteErr"
    by simp
  note a2 = W [THEN conjunct2, THEN conjunct1]
  from W [THEN conjunct2, THEN conjunct2, THEN conjunct2, THEN conjunct2] old
  have a3: "files (snd (SaveData2 ?w disk_hello ''./data/'' ''hello.txt'' ''Bye, World!''))
      ''./data/hello.txt'' = Some (File ''Hello, World!'')"
    by simp
  from Y [THEN conjunct1] y4
  have b1: "fst (SaveData2 ?y disk_hello ''./data/'' ''hello.txt'' ''Bye, World!'') = Some SyncErr"
    by simp
  note b2 = Y [THEN conjunct2, THEN conjunct1]
  show ?thesis
    by (intro conjI) (fact w1 w2 w3 a1 a2 a3 y1 y2 b1 b2)+
qed

subsection \<open>C4: saving twice\<close>

text \<open>
  C4 asks that two saves of one payload leave \<open>path+file\<close> holding the payload and no
  temporary file. Starting from an empty disk, with the random numbers 1 and 2, both
  calls return the error of \<open>os.Rename\<close>; afterwards \<open>./data/hello.txt\<close> does not exist
  and both temporary files do.
\<close>

theorem saving_twice_leaves_two_temps:
  "fst (SaveData2 (calm 1) disk_empty ''./data/'' ''hello.txt'' ''Hi'')
     = Some (LinkError ''rename'' ''./data/hello.txt.tmp.1'' ''./data/'' EEXIST)
   \<and> fst (SaveData2 (calm 2) (snd (SaveData2 (calm 1) disk_empty ''./data/'' ''hello.txt'' ''Hi''))
        ''./data/'' ''hello.txt'' ''Hi'')
     = Some (LinkError ''rename'' ''./data/hello.txt.tmp.2'' ''./data/'' EEXIST)
   \<and> files (snd (SaveData2 (calm 2)
        (snd (SaveData2 (calm 1) disk_empty ''./data/'' ''hello.txt'' ''Hi''))
        ''./data/'' ''hello.txt'' ''Hi'')) ''./data/hello.txt'' = None
   \<and> files (snd (SaveData2 (calm 2)
        (snd (SaveData2 (calm 1) disk_empty ''./data/'' ''hello.txt'' ''Hi''))
        ''./data/'' ''hello.txt'' ''Hi'')) ''./data/hello.txt.tmp.1'' = Some (File ''Hi'')
   \<and> files (snd (SaveData2 (calm 2)
        (snd (SaveData2 (calm 1) disk_empty ''./data/'' ''hello.txt'' ''Hi''))
        ''./data/'' ''hello.txt'' ''Hi'')) ''./data/hello.txt.tmp.2'' = Some (File ''Hi'')"
  by (simp add: SaveData2_def os_defs disk_defs)

subsection \<open>C5: the temporary name is taken\<close>

text \<open>
  As the claim is worded (for every call, a file with the generated name makes the call
  return \<open>OpenErr\<close>) it does not hold: the directory step comes first, and when it fails
  the call returns \<open>FolderErr\<close> without trying to create the temporary file. Here
  \<open>pre\<close> is a regular file, so \<open>os.MkdirAll\<close> of \<open>pre\<close> fails, while \<open>prefix.tmp.7\<close>
  exists.
\<close>

theorem folder_error_hides_existing_temp:
  "files disk_pre (tmp_name (calm 7) ''pre'' ''fix'') = Some (File ''old'')
   \<and> fst (SaveData2 (calm 7) disk_pre ''pre'' ''fix'' ''Bye'') = Some FolderErr
   \<and> trace (snd (SaveData2 (calm 7) disk_pre ''pre'' ''fix'' ''Bye'')) = [EvMkdirAll ''pre'']"
  by (simp add: SaveData2_def os_defs disk_defs)

text \<open>
  C5 (amended). When the directory step succeeds and the generated temporary name is
  already bound, the exclusive create fails and \<open>SaveData2\<close> returns \<open>OpenErr\<close>; the
  name is bound to what it was bound to, the files are those the directory step left,
  and the call has performed nothing but \<open>os.MkdirAll\<close> and the refused
  \<open>os.OpenFile\<close>.
\<close>

theorem existing_temp_name_is_refused:
  assumes "dir_ensured env s path" and "files s (tmp_name env path file) = Some nd"
  shows "fst (SaveData2 env s path file data) = Some OpenErr
       \<and> files (snd (SaveData2 env s path file data)) (tmp_name env path file) = Some nd
       \<and> files (snd (SaveData2 env s path file data)) = after_mkdir env s path
       \<and> only_dirs_added (files s) (files (snd (SaveData2 env s path file data)))
       \<and> trace (snd (SaveData2 env s path file data))
           = trace s @ [EvMkdirAll path, EvOpenFile (tmp_name env path file) O_EXCL]"
proof -
  have "\<not> temp_created env s path file"
    using temp_created_fresh [of env s path "file"] assms(2) by auto
  note r = SaveData2_open_fails(1) [OF assms(1) this, of data]
  have "after_mkdir env s path (tmp_name env path file) = Some nd"
    using only_dirs_added_keeps [OF after_mkdir_adds assms(2)] .
  with r show ?thesis
    by (simp add: after_mkdir_adds)
qed

theorem existing_temp_name_is_refused_witness:
  "dir_ensured (calm 42) disk_stale ''./data/''
   \<and> files disk_stale (tmp_name (calm 42) ''./data/'' ''hello.txt'') = Some (File ''old'')
   \<and> fst (SaveData2 (calm 42) disk_stale ''./data/'' ''hello.txt'' ''Bye, World!'') = Some OpenErr
   \<and> files (snd (SaveData2 (calm 42) disk_stale ''./data/'' ''hello.txt'' ''Bye, World!''))
        (tmp_name (calm 42) ''./data/'' ''hello.txt'') = Some (File ''old'')
   \<and> trace (snd (SaveData2 (calm 42) disk_stale ''./data/'' ''hello.txt'' ''Bye, World!''))
       = trace disk_stale @ [EvMkdirAll ''./data/'',
           EvOpenFile (tmp_name (calm 42) ''./data/'' ''hello.txt'') O_EXCL]"
proof -
  have d: "dir_ensured (calm 42) disk_stale ''./data/''"
    by (simp add: dir_ensured_def os_defs disk_defs)
  have f: "files disk_stale (tmp_name (calm 42) ''./data/'' ''hello.txt'') = Some (File ''old'')"
    by (simp add: disk_defs)
  note R = existing_temp_name_is_refused [OF d f, of "''Bye, World!''"]
  show ?thesis
    by (intro conjI) (fact d f R [THEN conjunct1] R [THEN conjunct2, THEN conjunct1]
        R [THEN conjunct2, THEN conjunct2, THEN conjunct2, THEN conjunct2])+
qed

subsection \<open>C6: a failed or short write\<close>

lemma Write_fails:
  assumes "write_errs env \<or> short_write env data"
  shows "\<exists>n e s'. Write env s fp data = (n, Some e, s')"
  using assms
  by (auto simp: Write_def Let_def write_errs_def short_write_def split: option.splits)

text \<open>
  C6. In \<open>SaveData1\<close> and in \<open>SaveData2\<close>, a call that reaches the write of the payload
  returns \<open>WriteErr\<close> whenever the write reports an error or takes fewer bytes than the
  payload has.
\<close>

theorem write_failure_is_WriteErr:
  assumes "write_errs env \<or> short_write env data"
  shows "(target_opened env s path file \<longrightarrow> fst (SaveData1 env s path file data) = Some WriteErr)
       \<and> (temp_created env s path file \<longrightarrow> fst (SaveData2 env s path file data) = Some WriteErr)"
proof (intro conjI impI)
  assume "target_opened env s path file"
  then obtain s1 fp s2 where
    mk: "MkdirAll env s path = (None, s1)" and
    op: "OpenFile env s1 (path @ file) O_TRUNC = (Inr fp, s2)"
    by (auto simp: target_opened_def split: prod.splits option.splits sum.splits)
  from Write_fails [OF assms] obtain n e s3 where "Write env s2 fp data = (n, Some e, s3)"
    by blast
  then show "fst (SaveData1 env s path file data) = Some WriteErr"
    by (simp add: SaveData1_def mk op)
next
  assume "temp_created env s path file"
  then obtain s1 fp s2 where
    mk: "MkdirAll env s path = (None, s1)" and
    op: "OpenFile env s1 (tmp_name env path file) O_EXCL = (Inr fp, s2)"
    by (auto simp: temp_created_def split: prod.splits option.splits sum.splits)
  from Write_fails [OF assms] obtain n e s3 where "Write env s2 fp data = (n, Some e, s3)"
    by blast
  then show "fst (SaveData2 env s path file data) = Some WriteErr"
    by (simp add: SaveData2_def Let_def mk op)
qed

text \<open>
  A device that takes three bytes of \<open>Bye, World!\<close> and stops.
\<close>

theorem write_failure_is_WriteErr_witness:
  "short_write ((calm 42)\<lparr>write_limit := Some 3\<rparr>) ''Bye, World!''
   \<and> target_opened ((calm 42)\<lparr>write_limit := Some 3\<rparr>) disk_hello ''./data/'' ''hello.txt''
   \<and> temp_created ((calm 42)\<lparr>write_limit := Some 3\<rparr>) disk_hello ''./data/'' ''hello.txt''
   \<and> fst (SaveData1 ((calm 42)\<lparr>write_limit := Some 3\<rparr>) disk_hello ''./data/'' ''hello.txt''
        ''Bye, World!'') = Some WriteErr
   \<and> fst (SaveData2 ((calm 42)\<lparr>write_limit := Some 3\<rparr>) disk_hello ''./data/'' ''hello.txt''
        ''Bye, World!'') = Some WriteErr"
proof -
  let ?env = "(calm 42)\<lparr>write_limit := Some 3\<rparr>"
  have a: "short_write ?env ''Bye, World!''"
    by (simp add: short_write_def written_def calm_def)
  have b: "target_opened ?env disk_hello ''./data/'' ''hello.txt''"
    by (simp add: target_opened_def os_defs disk_defs)
  have c: "temp_created ?env disk_hello ''./data/'' ''hello.txt''"
    by (simp add: temp_created_def os_defs disk_defs)
  from a have d: "write_errs ?env \<or> short_write ?env ''Bye, World!''" by simp
  show ?thesis
    using a b c write_failure_is_WriteErr [OF d, of disk_hello "''./data/''" "''hello.txt''"]
    by simp
qed

subsection \<open>C7: a failing sync in SaveData1\<close>

lemma SaveData1_sync_error_is_raw:
  assumes "target_opened env s path file"
    and "\<not> write_errs env" and "\<not> short_write env data" and "sync_fault env = Some e"
  shows "fst (SaveData1 env s path file data) = Some (PathError ''sync'' (path @ file) e)"
proof -
  obtain s1 fp s2 where
    mk: "MkdirAll env s path = (None, s1)" and
    op: "OpenFile env s1 (path @ file) O_TRUNC = (Inr fp, s2)"
    using assms(1) by (auto simp: target_opened_def split: prod.splits option.splits sum.splits)
  note g = OpenFile_granted [OF op]
  from Write_closed [OF g(2), of env data] assms(2) written_full [OF assms(3)]
  obtain s3 where wr: "Write env s2 fp data = (length data, None, s3)"
    by (auto simp: write_errs_def split: option.splits)
  show ?thesis
    by (simp add: SaveData1_def mk op wr Sync_closed assms(4) g(1))
qed

text \<open>
  C7 asks that \<open>SaveData1\<close> returns \<open>SyncErr\<close> when the sync fails. It returns what
  \<open>fp.Sync()\<close> returned, an error of package \<open>os\<close>; \<open>SaveData2\<close>, at the same input,
  returns \<open>SyncErr\<close>.
\<close>

theorem SaveData1_returns_raw_sync_error:
  "fst (SaveData1 ((calm 42)\<lparr>sync_fault := Some EIO\<rparr>) disk_hello ''./data/'' ''hello.txt''
        ''Bye, World!'') = Some (PathError ''sync'' ''./data/hello.txt'' EIO)
   \<and> fst (SaveData1 ((calm 42)\<lparr>sync_fault := Some EIO\<rparr>) disk_hello ''./data/'' ''hello.txt''
        ''Bye, World!'') \<noteq> Some SyncErr
   \<and> fst (SaveData2 ((calm 42)\<lparr>sync_fault := Some EIO\<rparr>) disk_hello ''./data/'' ''hello.txt''
        ''Bye, World!'') = Some SyncErr"
  by (simp add: SaveData1_def SaveData2_def os_defs disk_defs)

subsection \<open>C8: what a reader of the target sees\<close>




















subsection \<open>C9: the temporary name, and what is done under it\<close>









subsection \<open>C10: a failing directory step\<close>

text \<open>
  As the claim is worded (when the directory step fails the file system is unchanged)
  it does not hold: \<open>os.MkdirAll\<close> makes the parents first and leaves them when the
  directory itself cannot be made. Here \<open>main\<close>'s path is \<open>./cmd/files/\<close> and the disk
  is full once \<open>./cmd/\<close> exists: both functions return \<open>FolderErr\<close>, and \<open>./cmd/\<close> is
  there afterwards.
\<close>

theorem partial_mkdir_changes_disk:
  "fst (SaveData1 full_after_cmd disk_cwd ''./cmd/files/'' ''hello_world.txt'' ''Hello, World!'')
     = Some FolderErr
   \<and> fst (SaveData2 full_after_cmd disk_cwd ''./cmd/files/'' ''hello_world.txt'' ''Hello, World!'')
     = Some FolderErr
   \<and> files disk_cwd ''./cmd/'' = None
   \<and> files (snd (SaveData1 full_after_cmd disk_cwd ''./cmd/files/'' ''hello_world.txt''
        ''Hello, World!'')) ''./cmd/'' = Some Dir
   \<and> files (snd (SaveData2 full_after_cmd disk_cwd ''./cmd/files/'' ''hello_world.txt''
        ''Hello, World!'')) ''./cmd/'' = Some Dir"
  by (simp add: SaveData1_def SaveData2_def os_defs disk_defs)

text \<open>
  C10 (amended). In \<open>SaveData1\<close> and in \<open>SaveData2\<close>, when \<open>os.MkdirAll\<close> fails the
  call returns \<open>FolderErr\<close>, and the call to \<open>os.MkdirAll\<close> is the only operation the
  function has performed: no file has been created, opened or written. Every name is
  bound as before the call, but for directories that \<open>os.MkdirAll\<close> made before it
  failed.
\<close>

theorem folder_error_touches_no_file:
  assumes "\<not> dir_ensured env s path"
  shows "fst (SaveData1 env s path file data) = Some FolderErr
       \<and> only_dirs_added (files s) (files (snd (SaveData1 env s path file data)))
       \<and> trace (snd (SaveData1 env s path file data)) = trace s @ [EvMkdirAll path]
       \<and> fst (SaveData2 env s path file data) = Some FolderErr
       \<and> only_dirs_added (files s) (files (snd (SaveData2 env s path file data)))
       \<and> trace (snd (SaveData2 env s path file data)) = trace s @ [EvMkdirAll path]"
proof -
  obtain e where mk: "fst (mkdir_all env (files s) path) = Some e"
    using assms by (auto simp: dir_ensured_def MkdirAll_closed)
  have one: "SaveData1 env s path file data
      = (Some FolderErr, \<lparr>files = after_mkdir env s path, trace = trace s @ [EvMkdirAll path]\<rparr>)"
    by (simp add: SaveData1_def MkdirAll_closed mk)
  note two = SaveData2_folder_fails(1) [OF assms, of "file" data]
  show ?thesis
    by (simp add: one two after_mkdir_adds)
qed

text \<open>
  The theorem at work: in a directory where \<open>pre\<close> is a regular file, \<open>os.MkdirAll\<close>
  of \<open>pre\<close> fails with \<open>ENOTDIR\<close>.
\<close>

theorem folder_error_touches_no_file_witness:
  "\<not> dir_ensured (calm 7) disk_pre ''pre''
   \<and> fst (SaveData1 (calm 7) disk_pre ''pre'' ''fix'' ''Bye'') = Some FolderErr
   \<and> only_dirs_added (files disk_pre) (files (snd (SaveData1 (calm 7) disk_pre ''pre'' ''fix''
        ''Bye'')))
   \<and> trace (snd (SaveData1 (calm 7) disk_pre ''pre'' ''fix'' ''Bye'')) = [EvMkdirAll ''pre'']
   \<and> fst (SaveData2 (calm 7) disk_pre ''pre'' ''fix'' ''Bye'') = Some FolderErr
   \<and> only_dirs_added (files disk_pre) (files (snd (SaveData2 (calm 7) disk_pre ''pre'' ''fix''
        ''Bye'')))
   \<and> trace (snd (SaveData2 (calm 7) disk_pre ''pre'' ''fix'' ''Bye'')) = [EvMkdirAll ''pre'']"
proof -
  have h: "\<not> dir_ensured (calm 7) disk_pre ''pre''"
    by (simp add: dir_ensured_def os_defs disk_defs)
  have t: "trace disk_pre = []"
    by (simp add: disk_pre_def)
  show ?thesis
    using h folder_error_touches_no_file [OF h, of "''fix''" "''Bye''"] by (simp add: t)
qed

end
